theory Spec2Isabelle
  imports Main "HOL-Library.Char_ord" "HOL-Library.List_Lexorder" "HOL-Library.AList"
begin

section \<open>Python values used by \<^verbatim>\<open>get_problems.py\<close>\<close>

text \<open>
  Strings are byte strings (\<^typ>\<open>string\<close>); every literal of the script is ASCII
  except the box-drawing marks of the text report, which appear as their UTF-8 bytes.
  The order on strings is the lexicographic order on characters, which is the order
  Python's \<^verbatim>\<open>sorted\<close> uses on \<^verbatim>\<open>str\<close>.

  A problem is a Python \<^verbatim>\<open>dict\<close> from \<^verbatim>\<open>str\<close> to \<^verbatim>\<open>str\<close>: an association list in
  insertion order. Subscripting with a missing key raises \<^verbatim>\<open>KeyError\<close>; the only other
  exception in reach is the \<^verbatim>\<open>ValueError\<close> of \<^verbatim>\<open>csv.DictWriter\<close> for a dict with keys
  that are not columns.
\<close>

datatype error = KeyError string | ValueError "string list"

type_synonym str = string

type_synonym pydict = "(str \<times> str) list"

text \<open>The objects handed to \<^verbatim>\<open>json.dump\<close>: strings, integers, lists and dicts.\<close>

datatype pyobj = PStr string | PInt int | PList "pyobj list" | PDict "(string \<times> pyobj) list"

definition getitem :: "pydict \<Rightarrow> string \<Rightarrow> error + string" where
  "getitem d k = (case map_of d k of None \<Rightarrow> Inl (KeyError k) | Some v \<Rightarrow> Inr v)"

definition contains :: "string \<Rightarrow> pydict \<Rightarrow> bool" where
  "contains k d \<longleftrightarrow> map_of d k \<noteq> None"

definition setitem :: "pydict \<Rightarrow> string \<Rightarrow> string \<Rightarrow> pydict" where
  "setitem d k v = AList.update k v d"

definition obj_getitem :: "pyobj \<Rightarrow> string \<Rightarrow> error + pyobj" where
  "obj_getitem d k =
     (case d of
        PDict kvs \<Rightarrow> (case map_of kvs k of None \<Rightarrow> Inl (KeyError k) | Some v \<Rightarrow> Inr v)
      | _ \<Rightarrow> Inl (KeyError k))"

text \<open>Sequencing of two steps of which the first may raise.\<close>

definition bind_err :: "error + 'a \<Rightarrow> ('a \<Rightarrow> error + 'b) \<Rightarrow> error + 'b" where
  "bind_err r f = (case r of Inl e \<Rightarrow> Inl e | Inr x \<Rightarrow> f x)"

text \<open>\<^verbatim>\<open>obj[k1][k2]...\<close>\<close>

fun obj_path :: "string list \<Rightarrow> pyobj \<Rightarrow> error + pyobj" where
  "obj_path [] d = Inr d"
| "obj_path (k # ks) d = bind_err (obj_getitem d k) (obj_path ks)"

text \<open>
  A loop or comprehension whose body may raise: the results in order, or the first
  exception.
\<close>

fun collect :: "('a \<Rightarrow> error + 'b) \<Rightarrow> 'a list \<Rightarrow> error + 'b list" where
  "collect f [] = Inr []"
| "collect f (x # xs) =
     (case f x of
        Inl e \<Rightarrow> Inl e
      | Inr y \<Rightarrow> (case collect f xs of Inl e \<Rightarrow> Inl e | Inr ys \<Rightarrow> Inr (y # ys)))"

text \<open>\<^verbatim>\<open>[p for p in problems if p[field] == value]\<close>\<close>

fun select_eq :: "string \<Rightarrow> string \<Rightarrow> pydict list \<Rightarrow> error + pydict list" where
  "select_eq field v [] = Inr []"
| "select_eq field v (p # ps) =
     (case getitem p field of
        Inl e \<Rightarrow> Inl e
      | Inr x \<Rightarrow>
          (case select_eq field v ps of
             Inl e \<Rightarrow> Inl e
           | Inr sel \<Rightarrow> Inr (if x = v then p # sel else sel)))"

text \<open>
  \<^verbatim>\<open>set(...)\<close> over strings is iterated in an order that depends on the process's hash
  seed. The order is a parameter of the model: a function from the sequence of elements
  added to the sequence in which the set yields them, each element once.
\<close>

type_synonym set_iter = "string list \<Rightarrow> string list"

definition valid_iter :: "set_iter \<Rightarrow> bool" where
  "valid_iter it \<longleftrightarrow> (\<forall>xs. set (it xs) = set xs \<and> distinct (it xs))"

text \<open>\<^verbatim>\<open>sorted(set(p[field] for p in problems))\<close>\<close>

definition sorted_values :: "set_iter \<Rightarrow> string \<Rightarrow> pydict list \<Rightarrow> error + string list" where
  "sorted_values it field problems =
     bind_err (collect (\<lambda>p. getitem p field) problems) (\<lambda>vs. Inr (sort (it vs)))"

subsection \<open>String formatting\<close>

definition nl :: string where
  "nl = [CHR 0x0A]"

text \<open>\<^verbatim>\<open>str(n)\<close> for a length or a loop index.\<close>

fun show_nat :: "nat \<Rightarrow> string" where
  "show_nat n =
     (if n < 10 then [''0123456789'' ! n]
      else show_nat (n div 10) @ [''0123456789'' ! (n mod 10)])"

declare show_nat.simps [simp del]

text \<open>The format specification \<^verbatim>\<open>{i:3}\<close>: right-aligned in a field of width three.\<close>

definition rjust3 :: "string \<Rightarrow> string" where
  "rjust3 s = replicate (3 - length s) CHR '' '' @ s"

text \<open>
  \<^verbatim>\<open>str.upper\<close> and \<^verbatim>\<open>str.capitalize\<close>, which the script applies to the four ASCII
  task-kind names only; bytes outside a-z and A-Z are left as they are.
\<close>

definition upper_char :: "char \<Rightarrow> char" where
  "upper_char c =
     (case map_of (zip ''abcdefghijklmnopqrstuvwxyz'' ''ABCDEFGHIJKLMNOPQRSTUVWXYZ'') c of
        None \<Rightarrow> c | Some u \<Rightarrow> u)"

definition lower_char :: "char \<Rightarrow> char" where
  "lower_char c =
     (case map_of (zip ''ABCDEFGHIJKLMNOPQRSTUVWXYZ'' ''abcdefghijklmnopqrstuvwxyz'') c of
        None \<Rightarrow> c | Some l \<Rightarrow> l)"

definition upper :: "string \<Rightarrow> string" where
  "upper s = map upper_char s"

definition capitalize :: "string \<Rightarrow> string" where
  "capitalize s = (case s of [] \<Rightarrow> [] | c # cs \<Rightarrow> upper_char c # map lower_char cs)"

text \<open>\<^verbatim>\<open>sep.join(xs)\<close>\<close>

fun join :: "string \<Rightarrow> string list \<Rightarrow> string" where
  "join sep [] = []"
| "join sep [x] = x"
| "join sep (x # y # ys) = x @ sep @ join sep (y # ys)"

section \<open>The task-type table\<close>

text \<open>
  Each entry of \<^verbatim>\<open>TASK_TYPES\<close> is a dict literal with the keys \<^verbatim>\<open>description\<close>,
  \<^verbatim>\<open>expected_solution_format\<close> and \<^verbatim>\<open>metric\<close>; the \<^verbatim>\<open>analysis\<close> entry also has
  \<^verbatim>\<open>system_levels\<close> and \<^verbatim>\<open>fault_types\<close>, whose presence the text report tests with
  \<^verbatim>\<open>in\<close>.
\<close>

record task_info =
  description :: string
  expected_solution_format :: string
  metric :: string
  system_levels :: "string list option"
  fault_types :: "string list option"

definition TASK_TYPES :: "(string \<times> task_info) list" where
  \<open>TASK_TYPES = [
     (''detection'', \<lparr>
        description = ''Detect anomalies in a deployed service'',
        expected_solution_format = ''str: "Yes" or "No"'',
        metric = ''TTD (Time To Detect)'',
        system_levels = None, fault_types = None\<rparr>),
     (''localization'', \<lparr>
        description = ''Identify the service(s) where the root cause of the fault lies'',
        expected_solution_format = ''list[str]: list of faulty service names'',
        metric = ''TTL (Time To Localize)'',
        system_levels = None, fault_types = None\<rparr>),
     (''analysis'', \<lparr>
        description = ''Root cause analysis - identify system level and fault type'',
        expected_solution_format = ''dict: {"system_level": "...", "fault_type": "..."}'',
        metric = ''TTA (Time To Analyze)'',
        system_levels =
          Some [''Hardware'', ''Operating System'', ''Virtualization'', ''Application''],
        fault_types =
          Some [''Misconfiguration'', ''Code Defect'', ''Authentication Issue'',
                ''Network/Storage Issue'', ''Operation Error'', ''Dependency Problem'']\<rparr>),
     (''mitigation'', \<lparr>
        description = ''Mitigate/fix the detected anomaly'',
        expected_solution_format = ''None (verified by system status check)'',
        metric = ''TTM (Time To Mitigate)'',
        system_levels = None, fault_types = None\<rparr>)]\<close>

text \<open>The table as the object \<^verbatim>\<open>json.dump\<close> receives, keys in the order of the literal.\<close>

definition task_info_obj :: "task_info \<Rightarrow> pyobj" where
  "task_info_obj info =
     PDict ([(''description'', PStr (description info)),
             (''expected_solution_format'', PStr (expected_solution_format info)),
             (''metric'', PStr (metric info))]
            @ (case system_levels info of
                 None \<Rightarrow> [] | Some ls \<Rightarrow> [(''system_levels'', PList (map PStr ls))])
            @ (case fault_types info of
                 None \<Rightarrow> [] | Some ts \<Rightarrow> [(''fault_types'', PList (map PStr ts))]))"

definition task_types_obj :: pyobj where
  "task_types_obj = PDict (map (\<lambda>(task, info). (task, task_info_obj info)) TASK_TYPES)"

section \<open>The problem registry\<close>

text \<open>
  Every dict literal of \<^verbatim>\<open>PROBLEMS\<close> lists the same eleven keys in the same order;
  \<open>problem\<close> is that literal. The two Flower entries carry a twelfth key,
  \<^verbatim>\<open>deployment\<close>, written after the others.
\<close>

definition problem ::
  "str \<Rightarrow> str \<Rightarrow> str \<Rightarrow> str \<Rightarrow> str \<Rightarrow> str \<Rightarrow> str \<Rightarrow> str \<Rightarrow> str \<Rightarrow> str \<Rightarrow> str \<Rightarrow> pydict" where
  "problem i t a ns fs ft fd w es sl fc =
     [(''id'', i), (''task'', t), (''app'', a), (''namespace'', ns), (''faulty_service'', fs),
      (''fault_type'', ft), (''fault_description'', fd), (''workload'', w),
      (''expected_solution'', es), (''system_level'', sl), (''fault_category'', fc)]"

definition PROBLEMS_literal :: "pydict list" where
  \<open>PROBLEMS_literal = [
   problem ''k8s_target_port-misconfig-detection-1'' ''detection'' ''Social Network''
     ''social-network'' ''user-service'' ''misconfig_k8s''
     ''K8s service target port misconfiguration''
     ''socialNetwork/wrk2/scripts/social-network/compose-post.lua''
     ''Yes''
     ''Virtualization'' ''Misconfiguration'',
   problem ''k8s_target_port-misconfig-localization-1'' ''localization'' ''Social Network''
     ''social-network'' ''user-service'' ''misconfig_k8s''
     ''K8s service target port misconfiguration''
     ''socialNetwork/wrk2/scripts/social-network/compose-post.lua''
     ''["user-service"]''
     ''Virtualization'' ''Misconfiguration'',
   problem ''k8s_target_port-misconfig-analysis-1'' ''analysis'' ''Social Network''
     ''social-network'' ''user-service'' ''misconfig_k8s''
     ''K8s service target port misconfiguration''
     ''socialNetwork/wrk2/scripts/social-network/compose-post.lua''
     ''{"system_level": "Virtualization", "fault_type": "Misconfiguration"}''
     ''Virtualization'' ''Misconfiguration'',
   problem ''k8s_target_port-misconfig-mitigation-1'' ''mitigation'' ''Social Network''
     ''social-network'' ''user-service'' ''misconfig_k8s''
     ''K8s service target port misconfiguration''
     ''socialNetwork/wrk2/scripts/social-network/compose-post.lua''
     ''Reset target port to 9090, all pods Running''
     ''Virtualization'' ''Misconfiguration'',
   problem ''k8s_target_port-misconfig-detection-2'' ''detection'' ''Social Network''
     ''social-network'' ''text-service'' ''misconfig_k8s''
     ''K8s service target port misconfiguration''
     ''socialNetwork/wrk2/scripts/social-network/compose-post.lua''
     ''Yes''
     ''Virtualization'' ''Misconfiguration'',
   problem ''k8s_target_port-misconfig-localization-2'' ''localization'' ''Social Network''
     ''social-network'' ''text-service'' ''misconfig_k8s''
     ''K8s service target port misconfiguration''
     ''socialNetwork/wrk2/scripts/social-network/compose-post.lua''
     ''["text-service"]''
     ''Virtualization'' ''Misconfiguration'',
   problem ''k8s_target_port-misconfig-analysis-2'' ''analysis'' ''Social Network''
     ''social-network'' ''text-service'' ''misconfig_k8s''
     ''K8s service target port misconfiguration''
     ''socialNetwork/wrk2/scripts/social-network/compose-post.lua''
     ''{"system_level": "Virtualization", "fault_type": "Misconfiguration"}''
     ''Virtualization'' ''Misconfiguration'',
   problem ''k8s_target_port-misconfig-mitigation-2'' ''mitigation'' ''Social Network''
     ''social-network'' ''text-service'' ''misconfig_k8s''
     ''K8s service target port misconfiguration''
     ''socialNetwork/wrk2/scripts/social-network/compose-post.lua''
     ''Reset target port to 9090, all pods Running''
     ''Virtualization'' ''Misconfiguration'',
   problem ''k8s_target_port-misconfig-detection-3'' ''detection'' ''Social Network''
     ''social-network'' ''post-storage-service'' ''misconfig_k8s''
     ''K8s service target port misconfiguration''
     ''socialNetwork/wrk2/scripts/social-network/compose-post.lua''
     ''Yes''
     ''Virtualization'' ''Misconfiguration'',
   problem ''k8s_target_port-misconfig-localization-3'' ''localization'' ''Social Network''
     ''social-network'' ''post-storage-service'' ''misconfig_k8s''
     ''K8s service target port misconfiguration''
     ''socialNetwork/wrk2/scripts/social-network/compose-post.lua''
     ''["post-storage-service"]''
     ''Virtualization'' ''Misconfiguration'',
   problem ''k8s_target_port-misconfig-analysis-3'' ''analysis'' ''Social Network''
     ''social-network'' ''post-storage-service'' ''misconfig_k8s''
     ''K8s service target port misconfiguration''
     ''socialNetwork/wrk2/scripts/social-network/compose-post.lua''
     ''{"system_level": "Virtualization", "fault_type": "Misconfiguration"}''
     ''Virtualization'' ''Misconfiguration'',
   problem ''k8s_target_port-misconfig-mitigation-3'' ''mitigation'' ''Social Network''
     ''social-network'' ''post-storage-service'' ''misconfig_k8s''
     ''K8s service target port misconfiguration''
     ''socialNetwork/wrk2/scripts/social-network/compose-post.lua''
     ''Reset target port to 9090, all pods Running''
     ''Virtualization'' ''Misconfiguration'',
   problem ''auth_miss_mongodb-detection-1'' ''detection'' ''Hotel Reservation''
     ''hotel-reserv'' ''mongodb-rate'' ''auth_missing''
     ''MongoDB authentication credentials missing''
     ''hotelReservation/wrk2/scripts/hotel-reservation/mixed-workload_type_1.lua''
     ''Yes''
     ''Application'' ''Authentication Issue'',
   problem ''auth_miss_mongodb-localization-1'' ''localization'' ''Hotel Reservation''
     ''hotel-reserv'' ''mongodb-rate'' ''auth_missing''
     ''MongoDB authentication credentials missing''
     ''hotelReservation/wrk2/scripts/hotel-reservation/mixed-workload_type_1.lua''
     ''["mongodb-rate"]''
     ''Application'' ''Authentication Issue'',
   problem ''auth_miss_mongodb-analysis-1'' ''analysis'' ''Hotel Reservation''
     ''hotel-reserv'' ''mongodb-rate'' ''auth_missing''
     ''MongoDB authentication credentials missing''
     ''hotelReservation/wrk2/scripts/hotel-reservation/mixed-workload_type_1.lua''
     ''{"system_level": "Application", "fault_type": "Authentication Issue"}''
     ''Application'' ''Authentication Issue'',
   problem ''auth_miss_mongodb-mitigation-1'' ''mitigation'' ''Hotel Reservation''
     ''hotel-reserv'' ''mongodb-rate'' ''auth_missing''
     ''MongoDB authentication credentials missing''
     ''hotelReservation/wrk2/scripts/hotel-reservation/mixed-workload_type_1.lua''
     ''Restore MongoDB authentication, all pods Running''
     ''Application'' ''Authentication Issue'',
   problem ''revoke_auth_mongodb-detection-1'' ''detection'' ''Hotel Reservation''
     ''hotel-reserv'' ''mongodb-geo'' ''auth_revoke''
     ''MongoDB authentication revoked''
     ''hotelReservation/wrk2/scripts/hotel-reservation/mixed-workload_type_1.lua''
     ''Yes''
     ''Application'' ''Authentication Issue'',
   problem ''revoke_auth_mongodb-localization-1'' ''localization'' ''Hotel Reservation''
     ''hotel-reserv'' ''mongodb-geo'' ''auth_revoke''
     ''MongoDB authentication revoked''
     ''hotelReservation/wrk2/scripts/hotel-reservation/mixed-workload_type_1.lua''
     ''["mongodb-geo"]''
     ''Application'' ''Authentication Issue'',
   problem ''revoke_auth_mongodb-analysis-1'' ''analysis'' ''Hotel Reservation''
     ''hotel-reserv'' ''mongodb-geo'' ''auth_revoke''
     ''MongoDB authentication revoked''
     ''hotelReservation/wrk2/scripts/hotel-reservation/mixed-workload_type_1.lua''
     ''{"system_level": "Application", "fault_type": "Authentication Issue"}''
     ''Application'' ''Authentication Issue'',
   problem ''revoke_auth_mongodb-mitigation-1'' ''mitigation'' ''Hotel Reservation''
     ''hotel-reserv'' ''mongodb-geo'' ''auth_revoke''
     ''MongoDB authentication revoked''
     ''hotelReservation/wrk2/scripts/hotel-reservation/mixed-workload_type_1.lua''
     ''Restore MongoDB authentication, all pods Running''
     ''Application'' ''Authentication Issue'',
   problem ''revoke_auth_mongodb-detection-2'' ''detection'' ''Hotel Reservation''
     ''hotel-reserv'' ''mongodb-rate'' ''auth_revoke''
     ''MongoDB authentication revoked''
     ''hotelReservation/wrk2/scripts/hotel-reservation/mixed-workload_type_1.lua''
     ''Yes''
     ''Application'' ''Authentication Issue'',
   problem ''revoke_auth_mongodb-localization-2'' ''localization'' ''Hotel Reservation''
     ''hotel-reserv'' ''mongodb-rate'' ''auth_revoke''
     ''MongoDB authentication revoked''
     ''hotelReservation/wrk2/scripts/hotel-reservation/mixed-workload_type_1.lua''
     ''["mongodb-rate"]''
     ''Application'' ''Authentication Issue'',
   problem ''revoke_auth_mongodb-analysis-2'' ''analysis'' ''Hotel Reservation''
     ''hotel-reserv'' ''mongodb-rate'' ''auth_revoke''
     ''MongoDB authentication revoked''
     ''hotelReservation/wrk2/scripts/hotel-reservation/mixed-workload_type_1.lua''
     ''{"system_level": "Application", "fault_type": "Authentication Issue"}''
     ''Application'' ''Authentication Issue'',
   problem ''revoke_auth_mongodb-mitigation-2'' ''mitigation'' ''Hotel Reservation''
     ''hotel-reserv'' ''mongodb-rate'' ''auth_revoke''
     ''MongoDB authentication revoked''
     ''hotelReservation/wrk2/scripts/hotel-reservation/mixed-workload_type_1.lua''
     ''Restore MongoDB authentication, all pods Running''
     ''Application'' ''Authentication Issue'',
   problem ''user_unregistered_mongodb-detection-1'' ''detection'' ''Hotel Reservation''
     ''hotel-reserv'' ''mongodb-geo'' ''user_unregistered''
     ''MongoDB user unregistered/deleted''
     ''hotelReservation/wrk2/scripts/hotel-reservation/mixed-workload_type_1.lua''
     ''Yes''
     ''Application'' ''Authentication Issue'',
   problem ''user_unregistered_mongodb-localization-1'' ''localization'' ''Hotel Reservation''
     ''hotel-reserv'' ''mongodb-geo'' ''user_unregistered''
     ''MongoDB user unregistered/deleted''
     ''hotelReservation/wrk2/scripts/hotel-reservation/mixed-workload_type_1.lua''
     ''["mongodb-geo"]''
     ''Application'' ''Authentication Issue'',
   problem ''user_unregistered_mongodb-analysis-1'' ''analysis'' ''Hotel Reservation''
     ''hotel-reserv'' ''mongodb-geo'' ''user_unregistered''
     ''MongoDB user unregistered/deleted''
     ''hotelReservation/wrk2/scripts/hotel-reservation/mixed-workload_type_1.lua''
     ''{"system_level": "Application", "fault_type": "Authentication Issue"}''
     ''Application'' ''Authentication Issue'',
   problem ''user_unregistered_mongodb-mitigation-1'' ''mitigation'' ''Hotel Reservation''
     ''hotel-reserv'' ''mongodb-geo'' ''user_unregistered''
     ''MongoDB user unregistered/deleted''
     ''hotelReservation/wrk2/scripts/hotel-reservation/mixed-workload_type_1.lua''
     ''Re-register MongoDB user, all pods Running''
     ''Application'' ''Authentication Issue'',
   problem ''user_unregistered_mongodb-detection-2'' ''detection'' ''Hotel Reservation''
     ''hotel-reserv'' ''mongodb-rate'' ''user_unregistered''
     ''MongoDB user unregistered/deleted''
     ''hotelReservation/wrk2/scripts/hotel-reservation/mixed-workload_type_1.lua''
     ''Yes''
     ''Application'' ''Authentication Issue'',
   problem ''user_unregistered_mongodb-localization-2'' ''localization'' ''Hotel Reservation''
     ''hotel-reserv'' ''mongodb-rate'' ''user_unregistered''
     ''MongoDB user unregistered/deleted''
     ''hotelReservation/wrk2/scripts/hotel-reservation/mixed-workload_type_1.lua''
     ''["mongodb-rate"]''
     ''Application'' ''Authentication Issue'',
   problem ''user_unregistered_mongodb-analysis-2'' ''analysis'' ''Hotel Reservation''
     ''hotel-reserv'' ''mongodb-rate'' ''user_unregistered''
     ''MongoDB user unregistered/deleted''
     ''hotelReservation/wrk2/scripts/hotel-reservation/mixed-workload_type_1.lua''
     ''{"system_level": "Application", "fault_type": "Authentication Issue"}''
     ''Application'' ''Authentication Issue'',
   problem ''user_unregistered_mongodb-mitigation-2'' ''mitigation'' ''Hotel Reservation''
     ''hotel-reserv'' ''mongodb-rate'' ''user_unregistered''
     ''MongoDB user unregistered/deleted''
     ''hotelReservation/wrk2/scripts/hotel-reservation/mixed-workload_type_1.lua''
     ''Re-register MongoDB user, all pods Running''
     ''Application'' ''Authentication Issue'',
   problem ''misconfig_app_hotel_res-detection-1'' ''detection'' ''Hotel Reservation''
     ''hotel-reserv'' ''frontend'' ''app_misconfig''
     ''Application misconfiguration in frontend''
     ''hotelReservation/wrk2/scripts/hotel-reservation/mixed-workload_type_1.lua''
     ''Yes''
     ''Application'' ''Misconfiguration'',
   problem ''misconfig_app_hotel_res-localization-1'' ''localization'' ''Hotel Reservation''
     ''hotel-reserv'' ''frontend'' ''app_misconfig''
     ''Application misconfiguration in frontend''
     ''hotelReservation/wrk2/scripts/hotel-reservation/mixed-workload_type_1.lua''
     ''["frontend"]''
     ''Application'' ''Misconfiguration'',
   problem ''misconfig_app_hotel_res-analysis-1'' ''analysis'' ''Hotel Reservation''
     ''hotel-reserv'' ''frontend'' ''app_misconfig''
     ''Application misconfiguration in frontend''
     ''hotelReservation/wrk2/scripts/hotel-reservation/mixed-workload_type_1.lua''
     ''{"system_level": "Application", "fault_type": "Misconfiguration"}''
     ''Application'' ''Misconfiguration'',
   problem ''misconfig_app_hotel_res-mitigation-1'' ''mitigation'' ''Hotel Reservation''
     ''hotel-reserv'' ''frontend'' ''app_misconfig''
     ''Application misconfiguration in frontend''
     ''hotelReservation/wrk2/scripts/hotel-reservation/mixed-workload_type_1.lua''
     ''Fix configuration, all pods Running''
     ''Application'' ''Misconfiguration'',
   problem ''scale_pod_zero_social_net-detection-1'' ''detection'' ''Social Network''
     ''social-network'' ''compose-post-service'' ''scale_pod_zero''
     ''Pod scaled to zero replicas''
     ''socialNetwork/wrk2/scripts/social-network/compose-post.lua''
     ''Yes''
     ''Virtualization'' ''Operation Error'',
   problem ''scale_pod_zero_social_net-localization-1'' ''localization'' ''Social Network''
     ''social-network'' ''compose-post-service'' ''scale_pod_zero''
     ''Pod scaled to zero replicas''
     ''socialNetwork/wrk2/scripts/social-network/compose-post.lua''
     ''["compose-post-service"]''
     ''Virtualization'' ''Operation Error'',
   problem ''scale_pod_zero_social_net-analysis-1'' ''analysis'' ''Social Network''
     ''social-network'' ''compose-post-service'' ''scale_pod_zero''
     ''Pod scaled to zero replicas''
     ''socialNetwork/wrk2/scripts/social-network/compose-post.lua''
     ''{"system_level": "Virtualization", "fault_type": "Operation Error"}''
     ''Virtualization'' ''Operation Error'',
   problem ''scale_pod_zero_social_net-mitigation-1'' ''mitigation'' ''Social Network''
     ''social-network'' ''compose-post-service'' ''scale_pod_zero''
     ''Pod scaled to zero replicas''
     ''socialNetwork/wrk2/scripts/social-network/compose-post.lua''
     ''Scale pod back to 1+, all pods Running''
     ''Virtualization'' ''Operation Error'',
   problem ''assign_to_non_existent_node_social_net-detection-1'' ''detection'' ''Social Network''
     ''social-network'' ''compose-post-service'' ''assign_non_existent_node''
     ''Pod assigned to non-existent node''
     ''socialNetwork/wrk2/scripts/social-network/compose-post.lua''
     ''Yes''
     ''Virtualization'' ''Misconfiguration'',
   problem ''assign_to_non_existent_node_social_net-localization-1'' ''localization'' ''Social Network''
     ''social-network'' ''compose-post-service'' ''assign_non_existent_node''
     ''Pod assigned to non-existent node''
     ''socialNetwork/wrk2/scripts/social-network/compose-post.lua''
     ''["compose-post-service"]''
     ''Virtualization'' ''Misconfiguration'',
   problem ''assign_to_non_existent_node_social_net-analysis-1'' ''analysis'' ''Social Network''
     ''social-network'' ''compose-post-service'' ''assign_non_existent_node''
     ''Pod assigned to non-existent node''
     ''socialNetwork/wrk2/scripts/social-network/compose-post.lua''
     ''{"system_level": "Virtualization", "fault_type": "Misconfiguration"}''
     ''Virtualization'' ''Misconfiguration'',
   problem ''assign_to_non_existent_node_social_net-mitigation-1'' ''mitigation'' ''Social Network''
     ''social-network'' ''compose-post-service'' ''assign_non_existent_node''
     ''Pod assigned to non-existent node''
     ''socialNetwork/wrk2/scripts/social-network/compose-post.lua''
     ''Remove invalid node selector, all pods Running''
     ''Virtualization'' ''Misconfiguration'',
   problem ''container_kill-detection'' ''detection'' ''Hotel Reservation''
     ''hotel-reserv'' ''user'' ''container_kill''
     ''Container killed via Chaos Mesh''
     ''hotelReservation/wrk2/scripts/hotel-reservation/mixed-workload_type_1.lua''
     ''Yes''
     ''Virtualization'' ''Operation Error'',
   problem ''container_kill-localization'' ''localization'' ''Hotel Reservation''
     ''hotel-reserv'' ''user'' ''container_kill''
     ''Container killed via Chaos Mesh''
     ''hotelReservation/wrk2/scripts/hotel-reservation/mixed-workload_type_1.lua''
     ''["user"]''
     ''Virtualization'' ''Operation Error'',
   problem ''pod_failure_hotel_res-detection-1'' ''detection'' ''Hotel Reservation''
     ''hotel-reserv'' ''user'' ''pod_failure''
     ''Pod failure injected via Chaos Mesh''
     ''hotelReservation/wrk2/scripts/hotel-reservation/mixed-workload_type_1.lua''
     ''Yes''
     ''Virtualization'' ''Operation Error'',
   problem ''pod_failure_hotel_res-localization-1'' ''localization'' ''Hotel Reservation''
     ''hotel-reserv'' ''user'' ''pod_failure''
     ''Pod failure injected via Chaos Mesh''
     ''hotelReservation/wrk2/scripts/hotel-reservation/mixed-workload_type_1.lua''
     ''["user"]''
     ''Virtualization'' ''Operation Error'',
   problem ''pod_kill_hotel_res-detection-1'' ''detection'' ''Hotel Reservation''
     ''hotel-reserv'' ''user'' ''pod_kill''
     ''Pod killed via Chaos Mesh''
     ''hotelReservation/wrk2/scripts/hotel-reservation/mixed-workload_type_1.lua''
     ''Yes''
     ''Virtualization'' ''Operation Error'',
   problem ''pod_kill_hotel_res-localization-1'' ''localization'' ''Hotel Reservation''
     ''hotel-reserv'' ''user'' ''pod_kill''
     ''Pod killed via Chaos Mesh''
     ''hotelReservation/wrk2/scripts/hotel-reservation/mixed-workload_type_1.lua''
     ''["user"]''
     ''Virtualization'' ''Operation Error'',
   problem ''network_loss_hotel_res-detection-1'' ''detection'' ''Hotel Reservation''
     ''hotel-reserv'' ''user'' ''network_loss''
     ''Network packet loss injected''
     ''hotelReservation/wrk2/scripts/hotel-reservation/mixed-workload_type_1.lua''
     ''Yes''
     ''Operating System'' ''Network/Storage Issue'',
   problem ''network_loss_hotel_res-localization-1'' ''localization'' ''Hotel Reservation''
     ''hotel-reserv'' ''user'' ''network_loss''
     ''Network packet loss injected''
     ''hotelReservation/wrk2/scripts/hotel-reservation/mixed-workload_type_1.lua''
     ''["user"]''
     ''Operating System'' ''Network/Storage Issue'',
   problem ''network_delay_hotel_res-detection-1'' ''detection'' ''Hotel Reservation''
     ''hotel-reserv'' ''user'' ''network_delay''
     ''Network delay/latency injected''
     ''hotelReservation/wrk2/scripts/hotel-reservation/mixed-workload_type_1.lua''
     ''Yes''
     ''Operating System'' ''Network/Storage Issue'',
   problem ''network_delay_hotel_res-localization-1'' ''localization'' ''Hotel Reservation''
     ''hotel-reserv'' ''user'' ''network_delay''
     ''Network delay/latency injected''
     ''hotelReservation/wrk2/scripts/hotel-reservation/mixed-workload_type_1.lua''
     ''["user"]''
     ''Operating System'' ''Network/Storage Issue'',
   problem ''noop_detection_hotel_reservation-1'' ''detection'' ''Hotel Reservation''
     ''hotel-reserv'' ''N/A'' ''noop''
     ''No fault injected (baseline test)''
     ''hotelReservation/wrk2/scripts/hotel-reservation/mixed-workload_type_1.lua''
     ''No''
     ''N/A'' ''N/A'',
   problem ''noop_detection_social_network-1'' ''detection'' ''Social Network''
     ''social-network'' ''N/A'' ''noop''
     ''No fault injected (baseline test)''
     ''socialNetwork/wrk2/scripts/social-network/compose-post.lua''
     ''No''
     ''N/A'' ''N/A'',
   problem ''noop_detection_astronomy_shop-1'' ''detection'' ''Astronomy Shop''
     ''astronomy-shop'' ''N/A'' ''noop''
     ''No fault injected (baseline test)''
     ''N/A''
     ''No''
     ''N/A'' ''N/A'',
   problem ''astronomy_shop_ad_service_failure-detection-1'' ''detection'' ''Astronomy Shop''
     ''astronomy-shop'' ''ad-service'' ''feature_flag_failure''
     ''Ad service failure via feature flag''
     ''OpenTelemetry Demo workload''
     ''Yes''
     ''Application'' ''Code Defect'',
   problem ''astronomy_shop_ad_service_failure-localization-1'' ''localization'' ''Astronomy Shop''
     ''astronomy-shop'' ''ad-service'' ''feature_flag_failure''
     ''Ad service failure via feature flag''
     ''OpenTelemetry Demo workload''
     ''["ad-service"]''
     ''Application'' ''Code Defect'',
   problem ''astronomy_shop_ad_service_high_cpu-detection-1'' ''detection'' ''Astronomy Shop''
     ''astronomy-shop'' ''ad-service'' ''high_cpu''
     ''Ad service high CPU usage via feature flag''
     ''OpenTelemetry Demo workload''
     ''Yes''
     ''Application'' ''Code Defect'',
   problem ''astronomy_shop_ad_service_high_cpu-localization-1'' ''localization'' ''Astronomy Shop''
     ''astronomy-shop'' ''ad-service'' ''high_cpu''
     ''Ad service high CPU usage via feature flag''
     ''OpenTelemetry Demo workload''
     ''["ad-service"]''
     ''Application'' ''Code Defect'',
   problem ''astronomy_shop_ad_service_manual_gc-detection-1'' ''detection'' ''Astronomy Shop''
     ''astronomy-shop'' ''ad-service'' ''manual_gc''
     ''Ad service manual garbage collection issue''
     ''OpenTelemetry Demo workload''
     ''Yes''
     ''Application'' ''Code Defect'',
   problem ''astronomy_shop_ad_service_manual_gc-localization-1'' ''localization'' ''Astronomy Shop''
     ''astronomy-shop'' ''ad-service'' ''manual_gc''
     ''Ad service manual garbage collection issue''
     ''OpenTelemetry Demo workload''
     ''["ad-service"]''
     ''Application'' ''Code Defect'',
   problem ''astronomy_shop_cart_service_failure-detection-1'' ''detection'' ''Astronomy Shop''
     ''astronomy-shop'' ''cart-service'' ''service_failure''
     ''Cart service failure via feature flag''
     ''OpenTelemetry Demo workload''
     ''Yes''
     ''Application'' ''Code Defect'',
   problem ''astronomy_shop_cart_service_failure-localization-1'' ''localization'' ''Astronomy Shop''
     ''astronomy-shop'' ''cart-service'' ''service_failure''
     ''Cart service failure via feature flag''
     ''OpenTelemetry Demo workload''
     ''["cart-service"]''
     ''Application'' ''Code Defect'',
   problem ''astronomy_shop_image_slow_load-detection-1'' ''detection'' ''Astronomy Shop''
     ''astronomy-shop'' ''image-provider'' ''slow_load''
     ''Image provider slow loading''
     ''OpenTelemetry Demo workload''
     ''Yes''
     ''Application'' ''Code Defect'',
   problem ''astronomy_shop_image_slow_load-localization-1'' ''localization'' ''Astronomy Shop''
     ''astronomy-shop'' ''image-provider'' ''slow_load''
     ''Image provider slow loading''
     ''OpenTelemetry Demo workload''
     ''["image-provider"]''
     ''Application'' ''Code Defect'',
   problem ''astronomy_shop_kafka_queue_problems-detection-1'' ''detection'' ''Astronomy Shop''
     ''astronomy-shop'' ''kafka'' ''queue_problems''
     ''Kafka queue processing issues''
     ''OpenTelemetry Demo workload''
     ''Yes''
     ''Application'' ''Dependency Problem'',
   problem ''astronomy_shop_kafka_queue_problems-localization-1'' ''localization'' ''Astronomy Shop''
     ''astronomy-shop'' ''kafka'' ''queue_problems''
     ''Kafka queue processing issues''
     ''OpenTelemetry Demo workload''
     ''["kafka"]''
     ''Application'' ''Dependency Problem'',
   problem ''astronomy_shop_kafka_queue_problems-mitigation-1'' ''mitigation'' ''Astronomy Shop''
     ''astronomy-shop'' ''kafka'' ''queue_problems''
     ''Kafka queue processing issues''
     ''OpenTelemetry Demo workload''
     ''Fix Kafka queue, all pods Running''
     ''Application'' ''Dependency Problem'',
   problem ''astronomy_shop_loadgenerator_flood_homepage-detection-1'' ''detection'' ''Astronomy Shop''
     ''astronomy-shop'' ''loadgenerator'' ''flood_homepage''
     ''Load generator flooding homepage''
     ''OpenTelemetry Demo workload''
     ''Yes''
     ''Application'' ''Operation Error'',
   problem ''astronomy_shop_loadgenerator_flood_homepage-localization-1'' ''localization'' ''Astronomy Shop''
     ''astronomy-shop'' ''loadgenerator'' ''flood_homepage''
     ''Load generator flooding homepage''
     ''OpenTelemetry Demo workload''
     ''["loadgenerator"]''
     ''Application'' ''Operation Error'',
   problem ''astronomy_shop_payment_service_failure-detection-1'' ''detection'' ''Astronomy Shop''
     ''astronomy-shop'' ''payment-service'' ''service_failure''
     ''Payment service failure via feature flag''
     ''OpenTelemetry Demo workload''
     ''Yes''
     ''Application'' ''Code Defect'',
   problem ''astronomy_shop_payment_service_failure-localization-1'' ''localization'' ''Astronomy Shop''
     ''astronomy-shop'' ''payment-service'' ''service_failure''
     ''Payment service failure via feature flag''
     ''OpenTelemetry Demo workload''
     ''["payment-service"]''
     ''Application'' ''Code Defect'',
   problem ''astronomy_shop_payment_service_unreachable-detection-1'' ''detection'' ''Astronomy Shop''
     ''astronomy-shop'' ''payment-service'' ''unreachable''
     ''Payment service unreachable''
     ''OpenTelemetry Demo workload''
     ''Yes''
     ''Application'' ''Network/Storage Issue'',
   problem ''astronomy_shop_payment_service_unreachable-localization-1'' ''localization'' ''Astronomy Shop''
     ''astronomy-shop'' ''payment-service'' ''unreachable''
     ''Payment service unreachable''
     ''OpenTelemetry Demo workload''
     ''["payment-service"]''
     ''Application'' ''Network/Storage Issue'',
   problem ''astronomy_shop_product_catalog_service_failure-detection-1'' ''detection'' ''Astronomy Shop''
     ''astronomy-shop'' ''product-catalog-service'' ''service_failure''
     ''Product catalog service failure''
     ''OpenTelemetry Demo workload''
     ''Yes''
     ''Application'' ''Code Defect'',
   problem ''astronomy_shop_product_catalog_service_failure-localization-1'' ''localization'' ''Astronomy Shop''
     ''astronomy-shop'' ''product-catalog-service'' ''service_failure''
     ''Product catalog service failure''
     ''OpenTelemetry Demo workload''
     ''["product-catalog-service"]''
     ''Application'' ''Code Defect'',
   problem ''astronomy_shop_recommendation_service_cache_failure-detection-1'' ''detection'' ''Astronomy Shop''
     ''astronomy-shop'' ''recommendation-service'' ''cache_failure''
     ''Recommendation service cache failure''
     ''OpenTelemetry Demo workload''
     ''Yes''
     ''Application'' ''Code Defect'',
   problem ''astronomy_shop_recommendation_service_cache_failure-localization-1'' ''localization'' ''Astronomy Shop''
     ''astronomy-shop'' ''recommendation-service'' ''cache_failure''
     ''Recommendation service cache failure''
     ''OpenTelemetry Demo workload''
     ''["recommendation-service"]''
     ''Application'' ''Code Defect'',
   problem ''redeploy_without_PV-detection-1'' ''detection'' ''Hotel Reservation''
     ''hotel-reserv'' ''mongodb'' ''redeploy_without_pv''
     ''Namespace redeployed without deleting PersistentVolume''
     ''hotelReservation/wrk2/scripts/hotel-reservation/mixed-workload_type_1.lua''
     ''Yes''
     ''Virtualization'' ''Operation Error'',
   problem ''redeploy_without_PV-analysis-1'' ''analysis'' ''Hotel Reservation''
     ''hotel-reserv'' ''mongodb'' ''redeploy_without_pv''
     ''Namespace redeployed without deleting PersistentVolume''
     ''hotelReservation/wrk2/scripts/hotel-reservation/mixed-workload_type_1.lua''
     ''{"system_level": "Virtualization", "fault_type": "Operation Error"}''
     ''Virtualization'' ''Operation Error'',
   problem ''redeploy_without_PV-mitigation-1'' ''mitigation'' ''Hotel Reservation''
     ''hotel-reserv'' ''mongodb'' ''redeploy_without_pv''
     ''Namespace redeployed without deleting PersistentVolume''
     ''hotelReservation/wrk2/scripts/hotel-reservation/mixed-workload_type_1.lua''
     ''Delete old PV and recreate, all pods Running''
     ''Virtualization'' ''Operation Error'',
   problem ''wrong_bin_usage-detection-1'' ''detection'' ''General''
     ''default'' ''app'' ''wrong_bin_usage''
     ''Wrong binary being used in container''
     ''N/A''
     ''Yes''
     ''Application'' ''Misconfiguration'',
   problem ''wrong_bin_usage-localization-1'' ''localization'' ''General''
     ''default'' ''app'' ''wrong_bin_usage''
     ''Wrong binary being used in container''
     ''N/A''
     ''["app"]''
     ''Application'' ''Misconfiguration'',
   problem ''wrong_bin_usage-analysis-1'' ''analysis'' ''General''
     ''default'' ''app'' ''wrong_bin_usage''
     ''Wrong binary being used in container''
     ''N/A''
     ''{"system_level": "Application", "fault_type": "Misconfiguration"}''
     ''Application'' ''Misconfiguration'',
   problem ''wrong_bin_usage-mitigation-1'' ''mitigation'' ''General''
     ''default'' ''app'' ''wrong_bin_usage''
     ''Wrong binary being used in container''
     ''N/A''
     ''Fix binary path, all pods Running''
     ''Application'' ''Misconfiguration'',
   (problem ''flower_node_stop-detection'' ''detection'' ''Flower (FL)''
     ''docker'' ''node'' ''node_stop''
     ''Federated learning node stopped''
     ''Flower FL workload''
     ''Yes''
     ''Application'' ''Operation Error''
      @ [(''deployment'', ''docker'')]),
   (problem ''flower_model_misconfig-detection'' ''detection'' ''Flower (FL)''
     ''docker'' ''model'' ''model_misconfig''
     ''Federated learning model misconfiguration''
     ''Flower FL workload''
     ''Yes''
     ''Application'' ''Misconfiguration''
      @ [(''deployment'', ''docker'')])]\<close>

text \<open>
  The pass that runs when the module is loaded:
  \<^verbatim>\<open>for p in PROBLEMS: if "deployment" not in p: p["deployment"] = "k8s"\<close>.
  The dicts are distinct objects, so mutating each in place is a map over the list.
\<close>

definition add_default_deployment :: "pydict list \<Rightarrow> pydict list" where
  "add_default_deployment ps =
     map (\<lambda>p. if \<not> contains ''deployment'' p then setitem p ''deployment'' ''k8s'' else p) ps"

definition PROBLEMS :: "pydict list" where
  "PROBLEMS = add_default_deployment PROBLEMS_literal"

section \<open>JSON export\<close>

definition task_kinds :: "string list" where
  "task_kinds = [''detection'', ''localization'', ''analysis'', ''mitigation'']"

text \<open>
  \<^verbatim>\<open>for key in keys: counts[key] = len([p for p in problems if p[field] == key])\<close>,
  the dict \<open>counts\<close> passed along.
\<close>

fun tally :: "string \<Rightarrow> pydict list \<Rightarrow> string list \<Rightarrow> (string \<times> nat) list \<Rightarrow>
    error + (string \<times> nat) list" where
  "tally field problems [] counts = Inr counts"
| "tally field problems (key # keys) counts =
     (case select_eq field key problems of
        Inl e \<Rightarrow> Inl e
      | Inr sel \<Rightarrow> tally field problems keys (AList.update key (length sel) counts))"

definition counts_obj :: "(string \<times> nat) list \<Rightarrow> pyobj" where
  "counts_obj counts = PDict (map (\<lambda>(k, n). (k, PInt (int n))) counts)"

definition problem_obj :: "pydict \<Rightarrow> pyobj" where
  "problem_obj p = PDict (map (\<lambda>(k, v). (k, PStr v)) p)"

text \<open>
  \<open>save_to_json\<close> returns the object \<^verbatim>\<open>output\<close> that the script hands to
  \<^verbatim>\<open>json.dump(output, f, indent=2)\<close>; the file is the library's serialisation of it,
  keys in the order of the association lists.
\<close>

definition save_to_json :: "set_iter \<Rightarrow> pydict list \<Rightarrow> error + pyobj" where
  "save_to_json it problems =
     bind_err (tally ''task'' problems task_kinds []) (\<lambda>by_task.
     bind_err (sorted_values it ''app'' problems) (\<lambda>apps.
     bind_err (tally ''app'' problems apps []) (\<lambda>by_app.
       Inr (PDict [
         (''task_types'', task_types_obj),
         (''problems'', PList (map problem_obj problems)),
         (''summary'', PDict [
            (''total'', PInt (int (length problems))),
            (''by_task'', counts_obj by_task),
            (''by_app'', counts_obj by_app)])]))))"

section \<open>CSV export\<close>

definition fieldnames :: "string list" where
  "fieldnames =
     [''id'', ''task'', ''app'', ''namespace'', ''faulty_service'',
      ''fault_type'', ''fault_description'', ''workload'',
      ''expected_solution'', ''system_level'', ''fault_category'', ''deployment'']"

text \<open>
  \<^verbatim>\<open>csv.DictWriter\<close> with its defaults: a dict with a key that is no column raises
  \<^verbatim>\<open>ValueError\<close>, a missing column is written as the empty string.
\<close>

definition dict_to_list :: "string list \<Rightarrow> pydict \<Rightarrow> error + string list" where
  "dict_to_list cols rowdict =
     (let wrong_fields = filter (\<lambda>k. k \<notin> set cols) (map fst rowdict)
      in if wrong_fields \<noteq> [] then Inl (ValueError wrong_fields)
         else Inr (map (\<lambda>k. case map_of rowdict k of None \<Rightarrow> [] | Some v \<Rightarrow> v) cols))"

text \<open>
  The writer of the default dialect: comma as delimiter, double quote as quote character,
  a quote inside a field doubled, minimal quoting, rows ended by CR LF. A field is quoted
  when it holds a comma, a quote, a CR or an LF; a row of one empty field is written as two
  quotes.
\<close>

definition CR :: char where
  "CR = CHR 0x0D"

definition LF :: char where
  "LF = CHR 0x0A"

definition special :: "char \<Rightarrow> bool" where
  "special c \<longleftrightarrow> c = CHR '','' \<or> c = CHR 0x22 \<or> c = CR \<or> c = LF"

fun double_quotes :: "string \<Rightarrow> string" where
  "double_quotes [] = []"
| "double_quotes (c # cs) =
     (if c = CHR 0x22 then CHR 0x22 # CHR 0x22 # double_quotes cs else c # double_quotes cs)"

definition csv_field :: "string \<Rightarrow> string" where
  "csv_field s =
     (if list_ex special s then CHR 0x22 # double_quotes s @ [CHR 0x22] else s)"

definition csv_writerow :: "string list \<Rightarrow> string" where
  "csv_writerow row =
     (if row = [[]] then [CHR 0x22, CHR 0x22] else join '','' (map csv_field row)) @ [CR, LF]"

text \<open>
  \<open>save_to_csv\<close> returns the content of the file, which is opened with
  \<^verbatim>\<open>newline=""\<close>, so the row ends are written as they are.
\<close>

definition save_to_csv :: "pydict list \<Rightarrow> error + string" where
  "save_to_csv problems =
     bind_err (collect (dict_to_list fieldnames) problems) (\<lambda>rows.
       Inr (concat (map csv_writerow (fieldnames # rows))))"

subsection \<open>Reading a CSV file back\<close>

text \<open>
  A reader for the same dialect, as a state machine over the characters: fields are
  separated by commas and records ended by CR LF (the last one may lack it); a field that
  starts with a quote runs to the next quote that is not doubled; a quote inside an
  unquoted field, a bare CR or LF outside quotes and text after a closing quote are
  malformed. An empty line is the empty record.
\<close>

datatype rstate = StartRecord | StartField | InField | InQuoted | QuoteInQuoted | EatLF

record reader =
  mode :: rstate
  cur :: string
  cur_row :: "string list"
  finished :: "string list list"

definition end_field :: "reader \<Rightarrow> reader" where
  "end_field r = r\<lparr>cur := [], cur_row := cur_row r @ [cur r]\<rparr>"

definition end_row :: "reader \<Rightarrow> reader" where
  "end_row r = r\<lparr>mode := StartRecord, cur_row := [], finished := finished r @ [cur_row r]\<rparr>"

definition rd_step :: "reader \<Rightarrow> char \<Rightarrow> reader option" where
  "rd_step r c =
     (case mode r of
        StartRecord \<Rightarrow>
          (if c = CHR 0x22 then Some (r\<lparr>mode := InQuoted\<rparr>)
           else if c = CHR '','' then Some ((end_field r)\<lparr>mode := StartField\<rparr>)
           else if c = CR then Some (r\<lparr>mode := EatLF\<rparr>)
           else if c = LF then None
           else Some (r\<lparr>mode := InField, cur := [c]\<rparr>))
      | StartField \<Rightarrow>
          (if c = CHR 0x22 then Some (r\<lparr>mode := InQuoted\<rparr>)
           else if c = CHR '','' then Some ((end_field r)\<lparr>mode := StartField\<rparr>)
           else if c = CR then Some ((end_field r)\<lparr>mode := EatLF\<rparr>)
           else if c = LF then None
           else Some (r\<lparr>mode := InField, cur := [c]\<rparr>))
      | InField \<Rightarrow>
          (if c = CHR 0x22 then None
           else if c = CHR '','' then Some ((end_field r)\<lparr>mode := StartField\<rparr>)
           else if c = CR then Some ((end_field r)\<lparr>mode := EatLF\<rparr>)
           else if c = LF then None
           else Some (r\<lparr>cur := cur r @ [c]\<rparr>))
      | InQuoted \<Rightarrow>
          (if c = CHR 0x22 then Some (r\<lparr>mode := QuoteInQuoted\<rparr>)
           else Some (r\<lparr>cur := cur r @ [c]\<rparr>))
      | QuoteInQuoted \<Rightarrow>
          (if c = CHR 0x22 then Some (r\<lparr>mode := InQuoted, cur := cur r @ [c]\<rparr>)
           else if c = CHR '','' then Some ((end_field r)\<lparr>mode := StartField\<rparr>)
           else if c = CR then Some ((end_field r)\<lparr>mode := EatLF\<rparr>)
           else None)
      | EatLF \<Rightarrow> (if c = LF then Some (end_row r) else None))"

fun rd_run :: "reader \<Rightarrow> string \<Rightarrow> reader option" where
  "rd_run r [] = Some r"
| "rd_run r (c # cs) = (case rd_step r c of None \<Rightarrow> None | Some r' \<Rightarrow> rd_run r' cs)"

definition rd_finish :: "reader \<Rightarrow> string list list option" where
  "rd_finish r =
     (case mode r of
        StartRecord \<Rightarrow> Some (finished r)
      | StartField \<Rightarrow> Some (finished (end_row (end_field r)))
      | InField \<Rightarrow> Some (finished (end_row (end_field r)))
      | QuoteInQuoted \<Rightarrow> Some (finished (end_row (end_field r)))
      | InQuoted \<Rightarrow> None
      | EatLF \<Rightarrow> None)"

definition parse_csv :: "string \<Rightarrow> string list list option" where
  "parse_csv s =
     (case rd_run \<lparr>mode = StartRecord, cur = [], cur_row = [], finished = []\<rparr> s of
        None \<Rightarrow> None
      | Some r \<Rightarrow> rd_finish r)"

section \<open>Text report\<close>

text \<open>
  The report is the sequence of strings passed to \<^verbatim>\<open>f.write\<close>, in order; the file is
  their concatenation. The marks \<^verbatim>\<open>|-\<close> and \<^verbatim>\<open>`-\<close> of a record block are box-drawing
  characters in the source; \<open>tee\<close> and \<open>corner\<close> are their UTF-8 bytes.
\<close>

definition rule100 :: string where
  "rule100 = replicate 100 CHR ''=''"

definition dash100 :: string where
  "dash100 = replicate 100 CHR ''-''"

definition tee :: string where
  "tee = [CHR 0xE2, CHR 0x94, CHR 0x9C, CHR 0xE2, CHR 0x94, CHR 0x80]"

definition corner :: string where
  "corner = [CHR 0xE2, CHR 0x94, CHR 0x94, CHR 0xE2, CHR 0x94, CHR 0x80]"

definition report_header :: "string list" where
  "report_header =
     [rule100 @ nl,
      ''AIOpsLab Problem Registry - Complete Details'' @ nl,
      rule100 @ nl @ nl]"

text \<open>The body of \<^verbatim>\<open>for task, info in TASK_TYPES.items()\<close>.\<close>

definition task_type_entry :: "string \<times> task_info \<Rightarrow> string list" where
  "task_type_entry = (\<lambda>(task, info).
     [upper task @ '':'' @ nl,
      ''  Description: '' @ description info @ nl,
      ''  Expected Solution Format: '' @ expected_solution_format info @ nl,
      ''  Metric: '' @ metric info @ nl]
     @ (case system_levels info of
          None \<Rightarrow> [] | Some ls \<Rightarrow> [''  System Levels: '' @ join '', '' ls @ nl])
     @ (case fault_types info of
          None \<Rightarrow> [] | Some ts \<Rightarrow> [''  Fault Types: '' @ join '', '' ts @ nl])
     @ [nl])"

definition task_types_part :: "string list" where
  "task_types_part =
     [''TASK TYPES'' @ nl, dash100 @ nl @ nl] @ concat (map task_type_entry TASK_TYPES)"

text \<open>
  One record block: the body of \<^verbatim>\<open>for i, p in enumerate(task_problems, 1)\<close>, eleven
  writes. The fields are read in the order of the writes, \<^verbatim>\<open>deployment\<close> first.
\<close>

definition block_fields :: "(string \<times> string) list" where
  "block_fields =
     [(''     '' @ tee @ '' Application:       '', ''app''),
      (''     '' @ tee @ '' Namespace:         '', ''namespace''),
      (''     '' @ tee @ '' Faulty Service:    '', ''faulty_service''),
      (''     '' @ tee @ '' Fault Type:        '', ''fault_type''),
      (''     '' @ tee @ '' Fault Description: '', ''fault_description''),
      (''     '' @ tee @ '' Workload:          '', ''workload''),
      (''     '' @ tee @ '' Expected Solution: '', ''expected_solution''),
      (''     '' @ tee @ '' System Level:      '', ''system_level''),
      (''     '' @ corner @ '' Fault Category:    '', ''fault_category'')]"

definition record_block :: "nat \<Rightarrow> pydict \<Rightarrow> error + string list" where
  "record_block i p =
     bind_err (getitem p ''deployment'') (\<lambda>d.
     let deploy_icon = (if d = ''docker'' then ''[Docker]'' else ''[K8s]'') in
     bind_err (getitem p ''id'') (\<lambda>ident.
     bind_err (collect (\<lambda>(label, key). bind_err (getitem p key) (\<lambda>v. Inr (label @ v @ nl)))
                 block_fields) (\<lambda>lines.
       Inr ([rjust3 (show_nat i) @ ''. '' @ deploy_icon @ '' '' @ ident @ nl] @ lines @ [nl]))))"

fun record_blocks :: "nat \<Rightarrow> pydict list \<Rightarrow> error + string list list" where
  "record_blocks i [] = Inr []"
| "record_blocks i (p # ps) =
     (case record_block i p of
        Inl e \<Rightarrow> Inl e
      | Inr b \<Rightarrow> (case record_blocks (Suc i) ps of Inl e \<Rightarrow> Inl e | Inr bs \<Rightarrow> Inr (b # bs)))"

text \<open>
  One pass of \<^verbatim>\<open>for task_type in task_types\<close>: the three writes of the section heading
  and the record blocks, or nothing at all when no problem has the task kind
  (\<^verbatim>\<open>continue\<close>).
\<close>

definition task_section :: "string \<Rightarrow> pydict list \<Rightarrow> error + string list \<times> string list list" where
  "task_section task_type problems =
     bind_err (select_eq ''task'' task_type problems) (\<lambda>task_problems.
       if task_problems = [] then Inr ([], [])
       else bind_err (record_blocks 1 task_problems) (\<lambda>blocks.
         Inr ([nl @ rule100 @ nl,
               upper task_type @ '' PROBLEMS ('' @ show_nat (length task_problems) @ '')'' @ nl,
               rule100 @ nl @ nl],
              blocks)))"

definition section_writes :: "string list \<times> string list list \<Rightarrow> string list" where
  "section_writes = (\<lambda>(heading, blocks). heading @ concat blocks)"

text \<open>
  \<^verbatim>\<open>for key in keys: count = len([p for p in problems if p[field] == key]);
  f.write(f"  - {label(key)}: {count}\n")\<close>
\<close>

definition count_lines :: "(string \<Rightarrow> string) \<Rightarrow> string \<Rightarrow> pydict list \<Rightarrow> string list \<Rightarrow>
    error + string list" where
  "count_lines label field problems keys =
     collect (\<lambda>key. bind_err (select_eq field key problems) (\<lambda>sel.
                Inr (''  - '' @ label key @ '': '' @ show_nat (length sel) @ nl))) keys"

definition grouped_counts :: "set_iter \<Rightarrow> string \<Rightarrow> pydict list \<Rightarrow> error + string list" where
  "grouped_counts it field problems =
     bind_err (sorted_values it field problems) (count_lines (\<lambda>k. k) field problems)"

definition summary_part :: "set_iter \<Rightarrow> pydict list \<Rightarrow> error + string list" where
  "summary_part it problems =
     bind_err (count_lines capitalize ''task'' problems task_kinds) (\<lambda>by_task.
     bind_err (grouped_counts it ''app'' problems) (\<lambda>by_app.
     bind_err (grouped_counts it ''system_level'' problems) (\<lambda>by_level.
     bind_err (grouped_counts it ''fault_category'' problems) (\<lambda>by_category.
     bind_err (select_eq ''deployment'' ''k8s'' problems) (\<lambda>k8s.
     bind_err (select_eq ''deployment'' ''docker'' problems) (\<lambda>docker.
       Inr ([nl @ rule100 @ nl,
             ''SUMMARY'' @ nl,
             rule100 @ nl @ nl,
             ''Total Problems: '' @ show_nat (length problems) @ nl @ nl,
             ''By Task Type:'' @ nl]
            @ by_task
            @ [nl @ ''By Application:'' @ nl] @ by_app
            @ [nl @ ''By System Level:'' @ nl] @ by_level
            @ [nl @ ''By Fault Category:'' @ nl] @ by_category
            @ [nl @ ''By Deployment:'' @ nl,
               ''  - Kubernetes: '' @ show_nat (length k8s) @ nl,
               ''  - Docker: '' @ show_nat (length docker) @ nl])))))))"

definition save_to_txt :: "set_iter \<Rightarrow> pydict list \<Rightarrow> error + string list" where
  "save_to_txt it problems =
     bind_err (collect (\<lambda>task_type. task_section task_type problems) task_kinds) (\<lambda>sections.
     bind_err (summary_part it problems) (\<lambda>summary.
       Inr (report_header @ task_types_part @ concat (map section_writes sections) @ summary)))"

section \<open>Notions used to state the properties\<close>

text \<open>
  The number of records whose field \<open>k\<close> is \<open>v\<close>, and the values of the field \<open>k\<close>
  over the records that have it, in order.
\<close>

definition count_field :: "string \<Rightarrow> string \<Rightarrow> pydict list \<Rightarrow> nat" where
  "count_field k v ps = length (filter (\<lambda>p. getitem p k = Inr v) ps)"

definition column :: "string \<Rightarrow> pydict list \<Rightarrow> string list" where
  "column k ps = List.map_filter (\<lambda>p. map_of p k) ps"

section \<open>Loops and comprehensions on well-formed input\<close>

lemma bind_err_simps [simp]:
  "bind_err (Inr x) f = f x"
  "bind_err (Inl e) f = Inl e"
  by (simp_all add: bind_err_def)

lemma getitem_contains: "contains k p \<Longrightarrow> \<exists>v. getitem p k = Inr v"
  by (auto simp: contains_def getitem_def)

lemma getitem_Inr_iff: "getitem p k = Inr v \<longleftrightarrow> map_of p k = Some v"
  by (auto simp: getitem_def split: option.splits)

lemma collect_map:
  "list_all (\<lambda>x. f x = Inr (g x)) xs \<Longrightarrow> collect f xs = Inr (map g xs)"
  by (induction xs) auto

lemma collect_getitem:
  "list_all (contains k) ps \<Longrightarrow> collect (\<lambda>p. getitem p k) ps = Inr (column k ps)"
  by (induction ps) (auto simp: column_def contains_def getitem_def)

lemma select_eq_filter:
  "list_all (contains k) ps \<Longrightarrow>
   select_eq k v ps = Inr (filter (\<lambda>p. getitem p k = Inr v) ps)"
  by (induction ps) (auto simp: contains_def getitem_def)

lemma tally_counts:
  "list_all (contains k) ps \<Longrightarrow> distinct keys \<Longrightarrow> set keys \<inter> fst ` set acc = {} \<Longrightarrow>
   tally k ps keys acc = Inr (acc @ map (\<lambda>key. (key, count_field k key ps)) keys)"
proof (induction keys arbitrary: acc)
  case Nil
  then show ?case by simp
next
  case (Cons key keys)
  from Cons.prems have fresh: "key \<notin> fst ` set acc" by auto
  then have upd: "AList.update key n acc = acc @ [(key, n)]" for n
    by (induction acc) auto
  from Cons.prems have "set keys \<inter> fst ` set (acc @ [(key, count_field k key ps)]) = {}"
    by auto
  with Cons show ?case
    by (simp add: select_eq_filter upd count_field_def)
qed

lemma sort_valid_iter:
  "valid_iter it \<Longrightarrow> sort (it xs) = sorted_list_of_set (set xs)"
  by (metis valid_iter_def sorted_list_of_set_sort_remdups distinct_remdups_id)

lemma sorted_values_eq:
  "list_all (contains k) ps \<Longrightarrow> valid_iter it \<Longrightarrow>
   sorted_values it k ps = Inr (sorted_list_of_set (set (column k ps)))"
  by (simp add: sorted_values_def collect_getitem sort_valid_iter)

lemma sum_indicator:
  "distinct xs \<Longrightarrow> sum_list (map (\<lambda>v. if x = v then 1 else 0) xs) = (if x \<in> set xs then 1 else (0::nat))"
  by (induction xs) auto

lemma count_sum:
  "distinct xs \<Longrightarrow> list_all (\<lambda>p. list_ex (\<lambda>v. getitem p k = Inr v) xs) ps \<Longrightarrow>
   (\<Sum>v\<leftarrow>xs. count_field k v ps) = length ps"
proof (induction ps)
  case Nil
  then show ?case by (simp add: count_field_def)
next
  case (Cons p ps)
  from Cons.prems obtain v where v: "v \<in> set xs" "getitem p k = Inr v"
    by (auto simp: list_ex_iff)
  have "(\<Sum>w\<leftarrow>xs. count_field k w (p # ps)) =
        (\<Sum>w\<leftarrow>xs. (if v = w then 1 else 0) + count_field k w ps)"
    using v by (intro arg_cong[where f = sum_list] map_cong) (auto simp: count_field_def)
  also have "\<dots> = (\<Sum>w\<leftarrow>xs. if v = w then 1 else 0) + (\<Sum>w\<leftarrow>xs. count_field k w ps)"
    by (simp add: sum_list_addf)
  finally show ?case using Cons v by (simp add: sum_indicator)
qed

lemma column_covers:
  "list_all (contains k) ps \<Longrightarrow>
   list_all (\<lambda>p. list_ex (\<lambda>v. getitem p k = Inr v) (sorted_list_of_set (set (column k ps)))) ps"
  by (force simp: list_all_iff list_ex_iff column_def contains_def getitem_def map_filter_def
      split: option.splits)

section \<open>Reading back what the CSV writer wrote\<close>

lemma rd_run_append:
  "rd_run r (xs @ ys) = (case rd_run r xs of None \<Rightarrow> None | Some r' \<Rightarrow> rd_run r' ys)"
  by (induction xs arbitrary: r) (auto split: option.splits)

lemma rd_plain:
  "\<not> list_ex special s \<Longrightarrow>
   rd_run \<lparr>mode = InField, cur = f, cur_row = rw, finished = d\<rparr> s =
     Some \<lparr>mode = InField, cur = f @ s, cur_row = rw, finished = d\<rparr>"
  by (induction s arbitrary: f) (auto simp: rd_step_def special_def)

lemma rd_plain_start:
  assumes "\<not> list_ex special s" "s \<noteq> []" "m = StartRecord \<or> m = StartField"
  shows "rd_run \<lparr>mode = m, cur = [], cur_row = rw, finished = d\<rparr> s =
     Some \<lparr>mode = InField, cur = s, cur_row = rw, finished = d\<rparr>"
proof (cases s)
  case Nil
  with assms show ?thesis by simp
next
  case (Cons c cs)
  with assms have c: "\<not> special c" and cs: "\<not> list_ex special cs" by auto
  from c assms(3) have "rd_step \<lparr>mode = m, cur = [], cur_row = rw, finished = d\<rparr> c =
      Some \<lparr>mode = InField, cur = [c], cur_row = rw, finished = d\<rparr>"
    by (auto simp: rd_step_def special_def)
  with Cons rd_plain[OF cs, of "[c]" rw d] show ?thesis by simp
qed

lemma rd_quoted_body:
  "rd_run \<lparr>mode = InQuoted, cur = f, cur_row = rw, finished = d\<rparr> (double_quotes s) =
     Some \<lparr>mode = InQuoted, cur = f @ s, cur_row = rw, finished = d\<rparr>"
  by (induction s arbitrary: f) (auto simp: rd_step_def)

lemma rd_quoted:
  assumes "m = StartRecord \<or> m = StartField"
  shows "rd_run \<lparr>mode = m, cur = [], cur_row = rw, finished = d\<rparr>
            (CHR 0x22 # double_quotes s @ [CHR 0x22]) =
     Some \<lparr>mode = QuoteInQuoted, cur = s, cur_row = rw, finished = d\<rparr>"
  using assms rd_quoted_body[of "[]" rw d s]
  by (auto simp: rd_step_def rd_run_append)

text \<open>Reading one written field, up to the delimiter or row end that follows it.\<close>

lemma rd_field:
  assumes "m = StartRecord \<or> m = StartField"
  shows "rd_run \<lparr>mode = m, cur = [], cur_row = rw, finished = d\<rparr> (csv_field s @ rest) =
     rd_run \<lparr>mode = (if list_ex special s then QuoteInQuoted else if s = [] then m else InField),
              cur = s, cur_row = rw, finished = d\<rparr> rest"
proof (cases "list_ex special s")
  case True
  then have "csv_field s @ rest = (CHR 0x22 # double_quotes s @ [CHR 0x22]) @ rest"
    by (simp add: csv_field_def)
  then show ?thesis
    using True by (simp only: rd_run_append rd_quoted[OF assms]) simp
next
  case False
  show ?thesis
  proof (cases "s = []")
    case True
    then show ?thesis by (simp add: csv_field_def)
  next
    case ne: False
    from False ne show ?thesis
      by (simp add: csv_field_def rd_run_append rd_plain_start[OF False ne assms])
  qed
qed

lemma rd_field_comma:
  assumes "m = StartRecord \<or> m = StartField"
  shows "rd_run \<lparr>mode = m, cur = [], cur_row = rw, finished = d\<rparr>
           (csv_field s @ CHR '','' # rest) =
     rd_run \<lparr>mode = StartField, cur = [], cur_row = rw @ [s], finished = d\<rparr> rest"
  using assms by (auto simp: rd_field rd_step_def end_field_def)

lemma rd_field_crlf:
  assumes "m = StartRecord \<or> m = StartField" "m = StartRecord \<longrightarrow> s \<noteq> []"
  shows "rd_run \<lparr>mode = m, cur = [], cur_row = rw, finished = d\<rparr>
           (csv_field s @ CR # LF # rest) =
     rd_run \<lparr>mode = StartRecord, cur = [], cur_row = [], finished = d @ [rw @ [s]]\<rparr> rest"
  using assms by (auto simp: rd_field rd_step_def end_field_def end_row_def special_def CR_def LF_def)

lemma rd_row:
  assumes "m = StartRecord \<or> m = StartField" "row \<noteq> []" "m = StartRecord \<longrightarrow> row \<noteq> [[]]"
  shows "rd_run \<lparr>mode = m, cur = [], cur_row = rw, finished = d\<rparr>
           (join '','' (map csv_field row) @ CR # LF # rest) =
     rd_run \<lparr>mode = StartRecord, cur = [], cur_row = [], finished = d @ [rw @ row]\<rparr> rest"
  using assms
proof (induction row arbitrary: m rw)
  case Nil
  then show ?case by simp
next
  case (Cons s row)
  show ?case
  proof (cases row)
    case Nil
    with Cons.prems show ?thesis by (simp add: rd_field_crlf)
  next
    case (Cons t ts)
    have "rd_run \<lparr>mode = StartField, cur = [], cur_row = rw @ [s], finished = d\<rparr>
           (join '','' (map csv_field row) @ CR # LF # rest) =
          rd_run \<lparr>mode = StartRecord, cur = [], cur_row = [], finished = d @ [(rw @ [s]) @ row]\<rparr> rest"
      by (rule Cons.IH) (simp_all add: Cons)
    with Cons Cons.prems(1) show ?thesis
      by (simp add: rd_field_comma)
  qed
qed

lemma rd_writerow:
  "rd_run \<lparr>mode = StartRecord, cur = [], cur_row = [], finished = d\<rparr> (csv_writerow row @ rest) =
   rd_run \<lparr>mode = StartRecord, cur = [], cur_row = [], finished = d @ [row]\<rparr> rest"
proof -
  consider "row = []" | "row = [[]]" | "row \<noteq> []" "row \<noteq> [[]]" by blast
  then show ?thesis
  proof cases
    case 1
    then show ?thesis
      by (simp add: csv_writerow_def rd_step_def end_row_def CR_def LF_def)
  next
    case 2
    then show ?thesis
      by (simp add: csv_writerow_def rd_step_def end_row_def end_field_def CR_def LF_def)
  next
    case 3
    then show ?thesis
      using rd_row[of StartRecord row "[]" d rest] by (simp add: csv_writerow_def)
  qed
qed

lemma rd_writerows:
  "rd_run \<lparr>mode = StartRecord, cur = [], cur_row = [], finished = d\<rparr>
     (concat (map csv_writerow rs) @ rest) =
   rd_run \<lparr>mode = StartRecord, cur = [], cur_row = [], finished = d @ rs\<rparr> rest"
  by (induction rs arbitrary: d) (simp_all add: rd_writerow)

lemma parse_csv_writerows: "parse_csv (concat (map csv_writerow rs)) = Some rs"
  using rd_writerows[of "[]" rs "[]"] by (simp add: parse_csv_def rd_finish_def)

section \<open>Lookups in the registry\<close>

text \<open>
  The simplifier is kept out of the string literals of a registry entry by the
  congruence rule \<open>problem_cong\<close>; the lookups below read a field off an entry
  without unfolding it.
\<close>

lemma problem_cong:
  "problem i t a ns fs ft fd w es sl fc = problem i t a ns fs ft fd w es sl fc"
  by (rule refl)

lemma contains_deployment_problem:
  "contains ''deployment'' (problem i t a ns fs ft fd w es sl fc) = False"
  "contains ''deployment'' (problem i t a ns fs ft fd w es sl fc @ [(''deployment'', d)]) = True"
  by (simp_all add: contains_def problem_def)

lemma setitem_deployment_problem:
  "setitem (problem i t a ns fs ft fd w es sl fc) ''deployment'' v =
     problem i t a ns fs ft fd w es sl fc @ [(''deployment'', v)]"
  by (simp add: setitem_def problem_def)

lemma getitem_problem:
  "getitem (problem i t a ns fs ft fd w es sl fc @ [(''deployment'', d)]) ''id'' = Inr i"
  "getitem (problem i t a ns fs ft fd w es sl fc @ [(''deployment'', d)]) ''task'' = Inr t"
  "getitem (problem i t a ns fs ft fd w es sl fc @ [(''deployment'', d)]) ''app'' = Inr a"
  "getitem (problem i t a ns fs ft fd w es sl fc @ [(''deployment'', d)]) ''namespace'' = Inr ns"
  "getitem (problem i t a ns fs ft fd w es sl fc @ [(''deployment'', d)]) ''faulty_service'' = Inr fs"
  "getitem (problem i t a ns fs ft fd w es sl fc @ [(''deployment'', d)]) ''fault_type'' = Inr ft"
  "getitem (problem i t a ns fs ft fd w es sl fc @ [(''deployment'', d)]) ''fault_description'' = Inr fd"
  "getitem (problem i t a ns fs ft fd w es sl fc @ [(''deployment'', d)]) ''workload'' = Inr w"
  "getitem (problem i t a ns fs ft fd w es sl fc @ [(''deployment'', d)]) ''expected_solution'' = Inr es"
  "getitem (problem i t a ns fs ft fd w es sl fc @ [(''deployment'', d)]) ''system_level'' = Inr sl"
  "getitem (problem i t a ns fs ft fd w es sl fc @ [(''deployment'', d)]) ''fault_category'' = Inr fc"
  "getitem (problem i t a ns fs ft fd w es sl fc @ [(''deployment'', d)]) ''deployment'' = Inr d"
  by (simp_all add: getitem_def problem_def)

lemma contains_problem:
  "contains ''id'' (problem i t a ns fs ft fd w es sl fc @ [(''deployment'', d)])"
  "contains ''task'' (problem i t a ns fs ft fd w es sl fc @ [(''deployment'', d)])"
  "contains ''app'' (problem i t a ns fs ft fd w es sl fc @ [(''deployment'', d)])"
  "contains ''namespace'' (problem i t a ns fs ft fd w es sl fc @ [(''deployment'', d)])"
  "contains ''faulty_service'' (problem i t a ns fs ft fd w es sl fc @ [(''deployment'', d)])"
  "contains ''fault_type'' (problem i t a ns fs ft fd w es sl fc @ [(''deployment'', d)])"
  "contains ''fault_description'' (problem i t a ns fs ft fd w es sl fc @ [(''deployment'', d)])"
  "contains ''workload'' (problem i t a ns fs ft fd w es sl fc @ [(''deployment'', d)])"
  "contains ''expected_solution'' (problem i t a ns fs ft fd w es sl fc @ [(''deployment'', d)])"
  "contains ''system_level'' (problem i t a ns fs ft fd w es sl fc @ [(''deployment'', d)])"
  "contains ''fault_category'' (problem i t a ns fs ft fd w es sl fc @ [(''deployment'', d)])"
  by (simp_all add: contains_def problem_def)

lemma keys_problem:
  "map fst (problem i t a ns fs ft fd w es sl fc @ [(''deployment'', d)]) = fieldnames"
  by (simp add: problem_def fieldnames_def)

lemmas registry_simps =
  PROBLEMS_def PROBLEMS_literal_def add_default_deployment_def
  contains_deployment_problem setitem_deployment_problem getitem_problem contains_problem
  keys_problem

lemma length_PROBLEMS: "length PROBLEMS = 89"
  by (simp add: registry_simps cong: problem_cong)

lemma distinct_nth_map:
  assumes "distinct ys" "distinct js" "list_all (\<lambda>j. j < length ys) js" "inj f"
  shows "distinct (map (\<lambda>j. f (ys ! j)) js)"
proof -
  have "inj_on (\<lambda>j. f (ys ! j)) (set js)"
  proof (rule inj_onI)
    fix i j
    assume ij: "i \<in> set js" "j \<in> set js" "f (ys ! i) = f (ys ! j)"
    with assms(3) have "i < length ys" "j < length ys"
      by (simp_all add: list_all_iff)
    moreover from ij(3) assms(4) have "ys ! i = ys ! j"
      by (simp add: inj_eq)
    ultimately show "i = j"
      using assms(1) by (simp add: nth_eq_iff_index_eq)
  qed
  with assms(2) show ?thesis by (simp add: distinct_map)
qed

section \<open>Properties of the registry\<close>

text \<open>
  C3. Every record of the registry has an \<^verbatim>\<open>id\<close>, and no two records have the same
  one. The proof lists the ids in increasing order and gives the position of every
  record's id in that list.
\<close>

theorem registry_ids_unique:
  "distinct (map (\<lambda>p. getitem p ''id'') PROBLEMS) \<and> list_all (contains ''id'') PROBLEMS"
proof -
  define ys :: "string list" where "ys =
      [
       ''assign_to_non_existent_node_social_net-analysis-1'',
       ''assign_to_non_existent_node_social_net-detection-1'',
       ''assign_to_non_existent_node_social_net-localization-1'',
       ''assign_to_non_existent_node_social_net-mitigation-1'',
       ''astronomy_shop_ad_service_failure-detection-1'',
       ''astronomy_shop_ad_service_failure-localization-1'',
       ''astronomy_shop_ad_service_high_cpu-detection-1'',
       ''astronomy_shop_ad_service_high_cpu-localization-1'',
       ''astronomy_shop_ad_service_manual_gc-detection-1'',
       ''astronomy_shop_ad_service_manual_gc-localization-1'',
       ''astronomy_shop_cart_service_failure-detection-1'',
       ''astronomy_shop_cart_service_failure-localization-1'',
       ''astronomy_shop_image_slow_load-detection-1'',
       ''astronomy_shop_image_slow_load-localization-1'',
       ''astronomy_shop_kafka_queue_problems-detection-1'',
       ''astronomy_shop_kafka_queue_problems-localization-1'',
       ''astronomy_shop_kafka_queue_problems-mitigation-1'',
       ''astronomy_shop_loadgenerator_flood_homepage-detection-1'',
       ''astronomy_shop_loadgenerator_flood_homepage-localization-1'',
       ''astronomy_shop_payment_service_failure-detection-1'',
       ''astronomy_shop_payment_service_failure-localization-1'',
       ''astronomy_shop_payment_service_unreachable-detection-1'',
       ''astronomy_shop_payment_service_unreachable-localization-1'',
       ''astronomy_shop_product_catalog_service_failure-detection-1'',
       ''astronomy_shop_product_catalog_service_failure-localization-1'',
       ''astronomy_shop_recommendation_service_cache_failure-detection-1'',
       ''astronomy_shop_recommendation_service_cache_failure-localization-1'',
       ''auth_miss_mongodb-analysis-1'', ''auth_miss_mongodb-detection-1'',
       ''auth_miss_mongodb-localization-1'', ''auth_miss_mongodb-mitigation-1'',
       ''container_kill-detection'', ''container_kill-localization'',
       ''flower_model_misconfig-detection'', ''flower_node_stop-detection'',
       ''k8s_target_port-misconfig-analysis-1'', ''k8s_target_port-misconfig-analysis-2'',
       ''k8s_target_port-misconfig-analysis-3'', ''k8s_target_port-misconfig-detection-1'',
       ''k8s_target_port-misconfig-detection-2'',
       ''k8s_target_port-misconfig-detection-3'',
       ''k8s_target_port-misconfig-localization-1'',
       ''k8s_target_port-misconfig-localization-2'',
       ''k8s_target_port-misconfig-localization-3'',
       ''k8s_target_port-misconfig-mitigation-1'',
       ''k8s_target_port-misconfig-mitigation-2'',
       ''k8s_target_port-misconfig-mitigation-3'', ''misconfig_app_hotel_res-analysis-1'',
       ''misconfig_app_hotel_res-detection-1'', ''misconfig_app_hotel_res-localization-1'',
       ''misconfig_app_hotel_res-mitigation-1'', ''network_delay_hotel_res-detection-1'',
       ''network_delay_hotel_res-localization-1'', ''network_loss_hotel_res-detection-1'',
       ''network_loss_hotel_res-localization-1'', ''noop_detection_astronomy_shop-1'',
       ''noop_detection_hotel_reservation-1'', ''noop_detection_social_network-1'',
       ''pod_failure_hotel_res-detection-1'', ''pod_failure_hotel_res-localization-1'',
       ''pod_kill_hotel_res-detection-1'', ''pod_kill_hotel_res-localization-1'',
       ''redeploy_without_PV-analysis-1'', ''redeploy_without_PV-detection-1'',
       ''redeploy_without_PV-mitigation-1'', ''revoke_auth_mongodb-analysis-1'',
       ''revoke_auth_mongodb-analysis-2'', ''revoke_auth_mongodb-detection-1'',
       ''revoke_auth_mongodb-detection-2'', ''revoke_auth_mongodb-localization-1'',
       ''revoke_auth_mongodb-localization-2'', ''revoke_auth_mongodb-mitigation-1'',
       ''revoke_auth_mongodb-mitigation-2'', ''scale_pod_zero_social_net-analysis-1'',
       ''scale_pod_zero_social_net-detection-1'',
       ''scale_pod_zero_social_net-localization-1'',
       ''scale_pod_zero_social_net-mitigation-1'',
       ''user_unregistered_mongodb-analysis-1'', ''user_unregistered_mongodb-analysis-2'',
       ''user_unregistered_mongodb-detection-1'',
       ''user_unregistered_mongodb-detection-2'',
       ''user_unregistered_mongodb-localization-1'',
       ''user_unregistered_mongodb-localization-2'',
       ''user_unregistered_mongodb-mitigation-1'',
       ''user_unregistered_mongodb-mitigation-2'', ''wrong_bin_usage-analysis-1'',
       ''wrong_bin_usage-detection-1'', ''wrong_bin_usage-localization-1'',
       ''wrong_bin_usage-mitigation-1'']"
  define js :: "nat list" where "js =
      [
       38, 41, 35, 44, 39, 42, 36, 45, 40, 43, 37, 46, 28, 29, 27, 30, 67, 69, 65, 71, 68,
       70, 66, 72, 79, 81, 77, 83, 80, 82, 78, 84, 48, 49, 47, 50, 74, 75, 73, 76, 1, 2, 0,
       3, 31, 32, 58, 59, 60, 61, 53, 54, 51, 52, 56, 57, 55, 4, 5, 6, 7, 8, 9, 10, 11, 12,
       13, 14, 15, 16, 17, 18, 19, 20, 21, 22, 23, 24, 25, 26, 63, 62, 64, 86, 87, 85, 88,
       34, 33]"
  have "sorted_wrt (<) ys"
    unfolding ys_def by (simp only: sorted_wrt2[OF transp_on_less] sorted_wrt1) simp_all
  then have 1: "distinct ys"
    by (simp add: strict_sorted_iff)
  have 2: "distinct js"
    unfolding js_def by simp
  have 3: "list_all (\<lambda>j. j < length ys) js"
    unfolding js_def ys_def by simp
  have 4: "map (\<lambda>p. getitem p ''id'') PROBLEMS = map (\<lambda>j. Inr (ys ! j)) js"
    unfolding js_def ys_def by (simp add: registry_simps cong: problem_cong)
  have 5: "list_all (contains ''id'') PROBLEMS"
    by (simp add: registry_simps cong: problem_cong)
  from distinct_nth_map[OF 1 2 3, of Inr] 4 5 show ?thesis
    by simp
qed

end
